theory Spec2Isabelle
  imports Complex_Main
begin

section \<open>The camera of include/learnopengl/camera.h\<close>

text \<open>
  The header declares one class, \<open>Camera\<close>, whose members are \<open>float\<close>s and
  \<open>glm::vec3\<close>s. The properties below are stated over exact real arithmetic: every
  \<open>float\<close> is a \<^typ>\<open>real\<close>, every float literal (\<open>0.1f\<close>, \<open>89.0f\<close>, \<open>3.14159\<close>)
  is the decimal it is written as, and \<open>sin\<close>, \<open>cos\<close>, \<open>sqrt\<close> are the real functions.
  Rounding, infinities and NaN are outside this model.
\<close>

subsection \<open>GLM vectors\<close>

text \<open>
  \<open>glm::vec3\<close> and the GLM functions the header calls come from the GLM library, which
  is not part of the repository. They are modelled by what GLM computes:
  \<open>cross\<close> and \<open>dot\<close> componentwise, \<open>normalize v = v * inversesqrt (dot v v)\<close>,
  \<open>radians d = d * (\<pi> / 180)\<close> (GLM multiplies by the decimal expansion of \<open>\<pi> / 180\<close>).
\<close>

datatype vec3 = Vec3 (vx: real) (vy: real) (vz: real)

definition vec3_plus :: "vec3 \<Rightarrow> vec3 \<Rightarrow> vec3" where
  "vec3_plus a b = Vec3 (vx a + vx b) (vy a + vy b) (vz a + vz b)"

definition vec3_minus :: "vec3 \<Rightarrow> vec3 \<Rightarrow> vec3" where
  "vec3_minus a b = Vec3 (vx a - vx b) (vy a - vy b) (vz a - vz b)"

definition vec3_times :: "vec3 \<Rightarrow> real \<Rightarrow> vec3" where
  "vec3_times a k = Vec3 (vx a * k) (vy a * k) (vz a * k)"

definition glm_dot :: "vec3 \<Rightarrow> vec3 \<Rightarrow> real" where
  "glm_dot a b = vx a * vx b + vy a * vy b + vz a * vz b"

definition glm_cross :: "vec3 \<Rightarrow> vec3 \<Rightarrow> vec3" where
  "glm_cross a b =
     Vec3 (vy a * vz b - vy b * vz a)
          (vz a * vx b - vz b * vx a)
          (vx a * vy b - vx b * vy a)"

definition glm_inversesqrt :: "real \<Rightarrow> real" where
  "glm_inversesqrt v = 1 / sqrt v"

definition glm_normalize :: "vec3 \<Rightarrow> vec3" where
  "glm_normalize v = vec3_times v (glm_inversesqrt (glm_dot v v))"

text \<open>
  At the zero vector GLM's \<open>normalize\<close> divides by zero and its float result has NaN
  components; the real-valued model has \<open>1 / sqrt 0 = 0\<close> there. The properties of the
  basis below are stated where front and \<open>WorldUp\<close> are not parallel, so that no zero
  vector is normalised.
\<close>

definition glm_length :: "vec3 \<Rightarrow> real" where
  "glm_length v = sqrt (glm_dot v v)"

definition glm_radians :: "real \<Rightarrow> real" where
  "glm_radians degrees = degrees * (pi / 180)"

subsection \<open>Constants and the class\<close>

text \<open>\<open>#define PI 3.14159\<close>\<close>

definition PI :: real where
  "PI = 3.14159"

datatype Camera_Movement = FORWARD | BACKWARD | LEFT | RIGHT

definition YAW :: real where "YAW = - 90"
definition PITCH :: real where "PITCH = 0"
definition SPEED :: real where "SPEED = 2.5"
definition SENSITIVITY :: real where "SENSITIVITY = 0.1"
definition ZOOM :: real where "ZOOM = 45"

record Camera =
  Position :: vec3
  Front :: vec3
  Up :: vec3
  Right :: vec3
  WorldUp :: vec3
  Yaw :: real
  Pitch :: real
  MovementSpeed :: real
  MouseSensitivity :: real
  Zoom :: real

subsection \<open>Private helpers\<close>

text \<open>
  \<open>updateCameraVectors\<close> assigns \<open>Front\<close>, then \<open>Right\<close>, then \<open>Up\<close>; the second and
  third assignments read the members the earlier ones have just written.
\<close>

definition updateCameraVectors :: "Camera \<Rightarrow> Camera" where
  "updateCameraVectors c =
     (let front = Vec3 (cos (glm_radians (Yaw c)) * cos (glm_radians (Pitch c)))
                       (sin (glm_radians (Pitch c)))
                       (sin (glm_radians (Yaw c)) * cos (glm_radians (Pitch c)));
          c1 = c\<lparr>Front := glm_normalize front\<rparr>;
          c2 = c1\<lparr>Right := glm_normalize (glm_cross (Front c1) (WorldUp c1))\<rparr>;
          c3 = c2\<lparr>Up := glm_normalize (glm_cross (Right c2) (Front c2))\<rparr>
      in c3)"

definition distance_from_camera_to_target :: "vec3 \<Rightarrow> vec3 \<Rightarrow> real" where
  "distance_from_camera_to_target camera_position target_position =
     (let distance_x = vx camera_position - vx target_position;
          distance_y = vy camera_position - vy target_position;
          distance_z = vz camera_position - vz target_position
      in sqrt (distance_x * distance_x + distance_y * distance_y + distance_z * distance_z))"

definition degree_to_radian :: "real \<Rightarrow> real" where
  "degree_to_radian degree = degree / 180 * PI"

subsection \<open>Constructors\<close>

text \<open>
  Both constructors initialise \<open>Front\<close>, \<open>MovementSpeed\<close>, \<open>MouseSensitivity\<close> and \<open>Zoom\<close>
  in the initialiser list, assign \<open>Position\<close>, \<open>WorldUp\<close>, \<open>Yaw\<close> and \<open>Pitch\<close> in the body
  and call \<open>updateCameraVectors\<close>. \<open>Up\<close> and \<open>Right\<close> hold no value until that call
  assigns them; nothing reads them before.
\<close>

definition Camera_from_vectors :: "vec3 \<Rightarrow> vec3 \<Rightarrow> real \<Rightarrow> real \<Rightarrow> Camera" where
  "Camera_from_vectors position up yaw pitch =
     updateCameraVectors
       \<lparr>Position = position, Front = Vec3 0 0 (- 1), Up = undefined, Right = undefined,
        WorldUp = up, Yaw = yaw, Pitch = pitch,
        MovementSpeed = SPEED, MouseSensitivity = SENSITIVITY, Zoom = ZOOM\<rparr>"

definition Camera_from_scalars ::
  "real \<Rightarrow> real \<Rightarrow> real \<Rightarrow> real \<Rightarrow> real \<Rightarrow> real \<Rightarrow> real \<Rightarrow> real \<Rightarrow> Camera" where
  "Camera_from_scalars posX posY posZ upX upY upZ yaw pitch =
     updateCameraVectors
       \<lparr>Position = Vec3 posX posY posZ, Front = Vec3 0 0 (- 1), Up = undefined,
        Right = undefined, WorldUp = Vec3 upX upY upZ, Yaw = yaw, Pitch = pitch,
        MovementSpeed = SPEED, MouseSensitivity = SENSITIVITY, Zoom = ZOOM\<rparr>"

text \<open>The constructor call with every default argument.\<close>

definition Camera_default :: Camera where
  "Camera_default = Camera_from_vectors (Vec3 0 0 0) (Vec3 0 1 0) YAW PITCH"

subsection \<open>Public operations\<close>

definition ProcessKeyboard :: "Camera_Movement \<Rightarrow> real \<Rightarrow> Camera \<Rightarrow> Camera" where
  "ProcessKeyboard direction deltaTime c =
     (let velocity = MovementSpeed c * deltaTime;
          c1 = (if direction = FORWARD
                then c\<lparr>Position := vec3_plus (Position c) (vec3_times (Front c) velocity)\<rparr>
                else c);
          c2 = (if direction = BACKWARD
                then c1\<lparr>Position := vec3_minus (Position c1) (vec3_times (Front c1) velocity)\<rparr>
                else c1);
          c3 = (if direction = LEFT
                then c2\<lparr>Position := vec3_minus (Position c2) (vec3_times (Right c2) velocity)\<rparr>
                else c2);
          c4 = (if direction = RIGHT
                then c3\<lparr>Position := vec3_plus (Position c3) (vec3_times (Right c3) velocity)\<rparr>
                else c3)
      in c4)"

definition ProcessMouseMovement :: "real \<Rightarrow> real \<Rightarrow> bool \<Rightarrow> Camera \<Rightarrow> Camera" where
  "ProcessMouseMovement xoffset yoffset constrainPitch c =
     (let xoffset' = xoffset * MouseSensitivity c;
          yoffset' = yoffset * MouseSensitivity c;
          c1 = c\<lparr>Yaw := Yaw c + xoffset'\<rparr>;
          c2 = c1\<lparr>Pitch := Pitch c1 + yoffset'\<rparr>;
          c3 = (if constrainPitch
                then (let d1 = (if Pitch c2 > 89 then c2\<lparr>Pitch := 89\<rparr> else c2);
                          d2 = (if Pitch d1 < - 89 then d1\<lparr>Pitch := - 89\<rparr> else d1)
                      in d2)
                else c2)
      in updateCameraVectors c3)"

definition move_camera_in_sphere :: "real \<Rightarrow> real \<Rightarrow> vec3 \<Rightarrow> Camera \<Rightarrow> Camera" where
  "move_camera_in_sphere xoffset yoffset target_position c =
     (let xoffset' = xoffset * (MouseSensitivity c * 0.1);
          yoffset' = yoffset * (MouseSensitivity c * 0.1);
          c1 = c\<lparr>Yaw := Yaw c - xoffset'\<rparr>;
          c2 = c1\<lparr>Pitch := Pitch c1 - yoffset'\<rparr>;
          alpha = degree_to_radian (Yaw c2);
          beta = degree_to_radian (Pitch c2);
          distance = distance_from_camera_to_target (Position c2) target_position;
          c3 = c2\<lparr>Position := Vec3 (vx target_position - distance * cos alpha * cos beta)
                                  (vy (Position c2)) (vz (Position c2))\<rparr>;
          c4 = c3\<lparr>Position := Vec3 (vx (Position c3))
                                  (vy target_position - distance * sin beta)
                                  (vz (Position c3))\<rparr>;
          c5 = c4\<lparr>Position := Vec3 (vx (Position c4)) (vy (Position c4))
                                  (vz target_position - distance * sin alpha * cos beta)\<rparr>
      in updateCameraVectors c5)"

definition move_camera_in_ellipsoid :: "real \<Rightarrow> real \<Rightarrow> vec3 \<Rightarrow> Camera \<Rightarrow> Camera" where
  "move_camera_in_ellipsoid xoffset yoffset target_position c =
     (let xoffset' = xoffset * (MouseSensitivity c * 0.1);
          yoffset' = yoffset * (MouseSensitivity c * 0.1);
          c1 = c\<lparr>Yaw := Yaw c - xoffset'\<rparr>;
          c2 = c1\<lparr>Pitch := Pitch c1 - yoffset'\<rparr>;
          alpha = degree_to_radian (Yaw c2);
          beta = degree_to_radian (Pitch c2);
          distance = distance_from_camera_to_target (Position c2) target_position;
          c3 = c2\<lparr>Position := Vec3 (vx target_position - distance * cos alpha * cos beta)
                                  (vy (Position c2)) (vz (Position c2))\<rparr>;
          c4 = c3\<lparr>Position := Vec3 (vx (Position c3))
                                  (vy target_position - distance * sin beta)
                                  (vz (Position c3))\<rparr>;
          c5 = c4\<lparr>Position := Vec3 (vx (Position c4)) (vy (Position c4))
                                  (vz target_position - distance * sin alpha * cos beta)\<rparr>
      in updateCameraVectors c5)"

definition ProcessMouseScroll :: "real \<Rightarrow> Camera \<Rightarrow> Camera" where
  "ProcessMouseScroll yoffset c =
     (let c1 = (if Zoom c \<ge> 1 \<and> Zoom c \<le> 45 then c\<lparr>Zoom := Zoom c - yoffset\<rparr> else c);
          c2 = (if Zoom c1 \<le> 1 then c1\<lparr>Zoom := 1\<rparr> else c1);
          c3 = (if Zoom c2 \<ge> 45 then c2\<lparr>Zoom := 45\<rparr> else c2)
      in c3)"

subsection \<open>Notions the properties are stated with\<close>

text \<open>The vector that \<open>updateCameraVectors\<close> computes from a yaw and a pitch, in degrees.\<close>

definition front_of_angles :: "real \<Rightarrow> real \<Rightarrow> vec3" where
  "front_of_angles yaw pitch =
     glm_normalize (Vec3 (cos (glm_radians yaw) * cos (glm_radians pitch))
                         (sin (glm_radians pitch))
                         (sin (glm_radians yaw) * cos (glm_radians pitch)))"

text \<open>Two vectors are parallel when their cross product vanishes (a zero vector included).\<close>

definition parallel :: "vec3 \<Rightarrow> vec3 \<Rightarrow> bool" where
  "parallel a b \<longleftrightarrow> glm_cross a b = Vec3 0 0 0"

definition front_parallel_to_WorldUp :: "Camera \<Rightarrow> bool" where
  "front_parallel_to_WorldUp c \<longleftrightarrow> parallel (front_of_angles (Yaw c) (Pitch c)) (WorldUp c)"

definition orthonormal_basis :: "Camera \<Rightarrow> bool" where
  "orthonormal_basis c \<longleftrightarrow>
     glm_length (Front c) = 1 \<and> glm_length (Right c) = 1 \<and> glm_length (Up c) = 1 \<and>
     glm_dot (Front c) (Right c) = 0 \<and> glm_dot (Front c) (Up c) = 0 \<and>
     glm_dot (Right c) (Up c) = 0"

text \<open>
  Basis recomputation in the words of the specification: the three vectors as functions
  of yaw, pitch (degrees) and the world-up vector.
\<close>

definition spec_front :: "real \<Rightarrow> real \<Rightarrow> vec3" where
  "spec_front yaw pitch =
     glm_normalize (Vec3 (cos (yaw * pi / 180) * cos (pitch * pi / 180))
                         (sin (pitch * pi / 180))
                         (sin (yaw * pi / 180) * cos (pitch * pi / 180)))"

definition spec_right :: "real \<Rightarrow> real \<Rightarrow> vec3 \<Rightarrow> vec3" where
  "spec_right yaw pitch worldUp = glm_normalize (glm_cross (spec_front yaw pitch) worldUp)"

definition spec_up :: "real \<Rightarrow> real \<Rightarrow> vec3 \<Rightarrow> vec3" where
  "spec_up yaw pitch worldUp =
     glm_normalize (glm_cross (spec_right yaw pitch worldUp) (spec_front yaw pitch))"

text \<open>Straightforward clamping of a value to an interval.\<close>

definition clamp :: "real \<Rightarrow> real \<Rightarrow> real \<Rightarrow> real" where
  "clamp v lo hi = (if v < lo then lo else if hi < v then hi else v)"

text \<open>A sequence of calls, each applied to the state the previous one left.\<close>

definition mouse_look_sequence :: "(real \<times> real) list \<Rightarrow> Camera \<Rightarrow> Camera" where
  "mouse_look_sequence offsets c =
     foldl (\<lambda>s (xoffset, yoffset). ProcessMouseMovement xoffset yoffset True s) c offsets"

definition scroll_sequence :: "real list \<Rightarrow> Camera \<Rightarrow> Camera" where
  "scroll_sequence deltas c = foldl (\<lambda>s yoffset. ProcessMouseScroll yoffset s) c deltas"

text \<open>
  Every member of the class is public. A caller that has written \<open>Zoom\<close> of the default
  camera directly holds this state.
\<close>

definition camera_with_written_Zoom :: Camera where
  "camera_with_written_Zoom = Camera_default\<lparr>Zoom := 50\<rparr>"

text \<open>
  The states a camera goes through: it is constructed, then the five mutating operations
  are called in any order with any arguments. \<open>Front\<close>, \<open>Right\<close> and \<open>Up\<close> are derived
  members, and \<open>Yaw\<close>, \<open>Pitch\<close> and \<open>WorldUp\<close> are what they are derived from: callers
  change those only through the operations. The other members (\<open>Position\<close>,
  \<open>MovementSpeed\<close>, \<open>MouseSensitivity\<close>, \<open>Zoom\<close>) may also be written directly.
\<close>

inductive reachable :: "Camera \<Rightarrow> bool" where
  constructed_from_vectors: "reachable (Camera_from_vectors position up yaw pitch)"
| constructed_from_scalars:
    "reachable (Camera_from_scalars posX posY posZ upX upY upZ yaw pitch)"
| after_ProcessKeyboard:
    "reachable c \<Longrightarrow> reachable (ProcessKeyboard direction deltaTime c)"
| after_ProcessMouseMovement:
    "reachable c \<Longrightarrow> reachable (ProcessMouseMovement xoffset yoffset constrainPitch c)"
| after_move_camera_in_sphere:
    "reachable c \<Longrightarrow> reachable (move_camera_in_sphere xoffset yoffset target_position c)"
| after_move_camera_in_ellipsoid:
    "reachable c \<Longrightarrow> reachable (move_camera_in_ellipsoid xoffset yoffset target_position c)"
| after_ProcessMouseScroll:
    "reachable c \<Longrightarrow> reachable (ProcessMouseScroll yoffset c)"
| written_Position: "reachable c \<Longrightarrow> reachable (c\<lparr>Position := p\<rparr>)"
| written_MovementSpeed: "reachable c \<Longrightarrow> reachable (c\<lparr>MovementSpeed := v\<rparr>)"
| written_MouseSensitivity: "reachable c \<Longrightarrow> reachable (c\<lparr>MouseSensitivity := v\<rparr>)"
| written_Zoom: "reachable c \<Longrightarrow> reachable (c\<lparr>Zoom := v\<rparr>)"

code_pred reachable .

text \<open>
  The stored basis is the one \<open>updateCameraVectors\<close> computes from the stored \<open>Yaw\<close>,
  \<open>Pitch\<close> and \<open>WorldUp\<close>: it is not stale.
\<close>

definition basis_recomputed :: "Camera \<Rightarrow> bool" where
  "basis_recomputed c \<longleftrightarrow>
     Front c = front_of_angles (Yaw c) (Pitch c) \<and>
     Right c = glm_normalize (glm_cross (Front c) (WorldUp c)) \<and>
     Up c = glm_normalize (glm_cross (Right c) (Front c))"

section \<open>Vector algebra\<close>

lemma glm_dot_cross_left: "glm_dot (glm_cross a b) a = 0"
  by (simp add: glm_dot_def glm_cross_def algebra_simps)

lemma glm_dot_cross_right: "glm_dot (glm_cross a b) b = 0"
  by (simp add: glm_dot_def glm_cross_def algebra_simps)

lemma glm_dot_commute: "glm_dot a b = glm_dot b a"
  by (simp add: glm_dot_def algebra_simps)

lemma glm_dot_cross_cross:
  "glm_dot (glm_cross a b) (glm_cross a b) = glm_dot a a * glm_dot b b - (glm_dot a b)\<^sup>2"
  by (simp add: glm_dot_def glm_cross_def power2_eq_square algebra_simps)

lemma glm_dot_times_left: "glm_dot (vec3_times a k) b = k * glm_dot a b"
  by (simp add: glm_dot_def vec3_times_def algebra_simps)

lemma glm_dot_times_right: "glm_dot a (vec3_times b k) = k * glm_dot a b"
  by (simp add: glm_dot_def vec3_times_def algebra_simps)

lemma glm_dot_self_nonneg: "0 \<le> glm_dot v v"
  by (simp add: glm_dot_def)

lemma glm_dot_self_zero_iff: "glm_dot v v = 0 \<longleftrightarrow> v = Vec3 0 0 0"
proof
  assume h: "glm_dot v v = 0"
  have "vx v * vx v + (vy v * vy v + vz v * vz v) = 0" using h by (simp add: glm_dot_def)
  then have "vx v = 0 \<and> vy v = 0 \<and> vz v = 0"
    by (simp add: sum_squares_eq_zero_iff add_nonneg_eq_0_iff)
  then show "v = Vec3 0 0 0" by (cases v) simp
next
  assume "v = Vec3 0 0 0" then show "glm_dot v v = 0" by (simp add: glm_dot_def)
qed

lemma glm_normalize_unit: "glm_dot v v = 1 \<Longrightarrow> glm_normalize v = v"
  by (cases v) (simp add: glm_normalize_def glm_inversesqrt_def vec3_times_def)

lemma glm_dot_normalize_self:
  assumes "v \<noteq> Vec3 0 0 0"
  shows "glm_dot (glm_normalize v) (glm_normalize v) = 1"
proof -
  have pos: "0 < glm_dot v v"
    using assms glm_dot_self_zero_iff [of v] glm_dot_self_nonneg [of v] by linarith
  have "glm_dot (glm_normalize v) (glm_normalize v) =
        (1 / sqrt (glm_dot v v)) * ((1 / sqrt (glm_dot v v)) * glm_dot v v)"
    by (simp add: glm_normalize_def glm_inversesqrt_def glm_dot_times_left glm_dot_times_right)
  also have "\<dots> = glm_dot v v / (sqrt (glm_dot v v) * sqrt (glm_dot v v))"
    by simp
  also have "\<dots> = 1" using pos by simp
  finally show ?thesis .
qed

lemma glm_dot_normalize_left:
  "glm_dot (glm_normalize a) b = glm_inversesqrt (glm_dot a a) * glm_dot a b"
  by (simp add: glm_normalize_def glm_dot_times_left)

lemma raw_front_unit:
  "glm_dot (Vec3 (cos a * cos b) (sin b) (sin a * cos b))
           (Vec3 (cos a * cos b) (sin b) (sin a * cos b)) = 1"
proof -
  have "glm_dot (Vec3 (cos a * cos b) (sin b) (sin a * cos b))
                (Vec3 (cos a * cos b) (sin b) (sin a * cos b))
        = (cos a * cos b) * (cos a * cos b) + sin b * sin b + (sin a * cos b) * (sin a * cos b)"
    by (simp add: glm_dot_def)
  also have "\<dots> = ((sin a)\<^sup>2 + (cos a)\<^sup>2) * (cos b)\<^sup>2 + (sin b)\<^sup>2"
    by (simp only: power2_eq_square algebra_simps)
  also have "\<dots> = 1" by (simp only: sin_cos_squared_add sin_cos_squared_add2 mult_1)
  finally show ?thesis .
qed

lemma front_of_angles_raw:
  "front_of_angles yaw pitch =
     Vec3 (cos (glm_radians yaw) * cos (glm_radians pitch)) (sin (glm_radians pitch))
          (sin (glm_radians yaw) * cos (glm_radians pitch))"
  unfolding front_of_angles_def by (rule glm_normalize_unit) (rule raw_front_unit)

lemma front_of_angles_unit: "glm_dot (front_of_angles yaw pitch) (front_of_angles yaw pitch) = 1"
  unfolding front_of_angles_raw by (rule raw_front_unit)

lemma updateCameraVectors_fields:
  "updateCameraVectors c =
     c\<lparr>Front := front_of_angles (Yaw c) (Pitch c),
       Right := glm_normalize (glm_cross (front_of_angles (Yaw c) (Pitch c)) (WorldUp c)),
       Up := glm_normalize (glm_cross
               (glm_normalize (glm_cross (front_of_angles (Yaw c) (Pitch c)) (WorldUp c)))
               (front_of_angles (Yaw c) (Pitch c)))\<rparr>"
  by (simp add: updateCameraVectors_def front_of_angles_def Let_def)

text \<open>
  From a unit vector \<open>f\<close> and any \<open>w\<close> not parallel to it, the two normalised cross
  products complete \<open>f\<close> to an orthonormal triple.
\<close>

lemma basis_orthonormal:
  assumes f: "glm_dot f f = 1" and np: "glm_cross f w \<noteq> Vec3 0 0 0"
  defines "r \<equiv> glm_normalize (glm_cross f w)"
  defines "u \<equiv> glm_normalize (glm_cross r f)"
  shows "glm_dot r r = 1" and "glm_dot u u = 1" and "glm_dot f r = 0" and "glm_dot f u = 0"
    and "glm_dot r u = 0"
proof -
  show rr: "glm_dot r r = 1" unfolding r_def using np by (rule glm_dot_normalize_self)
  have rf: "glm_dot r f = 0" unfolding r_def by (simp add: glm_dot_normalize_left glm_dot_cross_left)
  then show "glm_dot f r = 0" by (simp add: glm_dot_commute)
  have "glm_dot (glm_cross r f) (glm_cross r f) = 1"
    by (simp add: glm_dot_cross_cross rr f rf)
  then have u: "u = glm_cross r f" unfolding u_def by (rule glm_normalize_unit)
  show "glm_dot u u = 1" unfolding u by (simp add: glm_dot_cross_cross rr f rf)
  have "glm_dot u f = 0" unfolding u by (rule glm_dot_cross_right)
  then show "glm_dot f u = 0" by (simp add: glm_dot_commute)
  have "glm_dot u r = 0" unfolding u by (rule glm_dot_cross_left)
  then show "glm_dot r u = 0" by (simp add: glm_dot_commute)
qed

lemma updateCameraVectors_orthonormal:
  assumes "\<not> front_parallel_to_WorldUp c"
  shows "orthonormal_basis (updateCameraVectors c)"
proof -
  have np: "glm_cross (front_of_angles (Yaw c) (Pitch c)) (WorldUp c) \<noteq> Vec3 0 0 0"
    using assms by (simp add: front_parallel_to_WorldUp_def parallel_def)
  note b = basis_orthonormal [OF front_of_angles_unit np]
  show ?thesis
    unfolding orthonormal_basis_def updateCameraVectors_fields glm_length_def
    by (simp add: b front_of_angles_unit)
qed

lemma front_parallel_updateCameraVectors:
  "front_parallel_to_WorldUp (updateCameraVectors c) = front_parallel_to_WorldUp c"
  by (simp add: front_parallel_to_WorldUp_def updateCameraVectors_fields)

lemma front_parallel_iff:
  "front_parallel_to_WorldUp c \<longleftrightarrow>
     glm_cross (Vec3 (cos (glm_radians (Yaw c)) * cos (glm_radians (Pitch c)))
                     (sin (glm_radians (Pitch c)))
                     (sin (glm_radians (Yaw c)) * cos (glm_radians (Pitch c))))
               (WorldUp c) = Vec3 0 0 0"
  by (simp add: front_parallel_to_WorldUp_def parallel_def front_of_angles_raw)

section \<open>What each operation leaves alone\<close>

lemma updateCameraVectors_Yaw: "Yaw (updateCameraVectors c) = Yaw c"
  by (simp add: updateCameraVectors_fields)

lemma updateCameraVectors_Pitch: "Pitch (updateCameraVectors c) = Pitch c"
  by (simp add: updateCameraVectors_fields)

lemma updateCameraVectors_WorldUp: "WorldUp (updateCameraVectors c) = WorldUp c"
  by (simp add: updateCameraVectors_fields)

lemma updateCameraVectors_Position: "Position (updateCameraVectors c) = Position c"
  by (simp add: updateCameraVectors_fields)

text \<open>
  The constructors leave no member without a value: \<open>Up\<close> and \<open>Right\<close> are those
  \<open>updateCameraVectors\<close> has assigned.
\<close>

lemma Camera_from_vectors_fields:
  "Camera_from_vectors position up yaw pitch =
     \<lparr>Position = position, Front = front_of_angles yaw pitch,
      Up = glm_normalize (glm_cross (glm_normalize (glm_cross (front_of_angles yaw pitch) up))
                                    (front_of_angles yaw pitch)),
      Right = glm_normalize (glm_cross (front_of_angles yaw pitch) up),
      WorldUp = up, Yaw = yaw, Pitch = pitch,
      MovementSpeed = SPEED, MouseSensitivity = SENSITIVITY, Zoom = ZOOM\<rparr>"
  by (simp add: Camera_from_vectors_def updateCameraVectors_fields)

lemma Camera_from_scalars_eq:
  "Camera_from_scalars posX posY posZ upX upY upZ yaw pitch =
     Camera_from_vectors (Vec3 posX posY posZ) (Vec3 upX upY upZ) yaw pitch"
  by (simp add: Camera_from_scalars_def Camera_from_vectors_def)

lemma Camera_default_fields:
  "Camera_default =
     \<lparr>Position = Vec3 0 0 0, Front = Vec3 0 0 (- 1), Up = Vec3 0 1 0, Right = Vec3 1 0 0,
      WorldUp = Vec3 0 1 0, Yaw = - 90, Pitch = 0, MovementSpeed = 2.5,
      MouseSensitivity = 0.1, Zoom = 45\<rparr>"
  by (simp add: Camera_default_def Camera_from_vectors_def updateCameraVectors_def Let_def
      YAW_def PITCH_def glm_radians_def glm_normalize_def glm_cross_def glm_dot_def
      glm_inversesqrt_def vec3_times_def SPEED_def SENSITIVITY_def ZOOM_def)

lemma ProcessMouseScroll_inside:
  "1 \<le> Zoom c \<Longrightarrow> Zoom c \<le> 45 \<Longrightarrow>
   ProcessMouseScroll yoffset c = c\<lparr>Zoom := clamp (Zoom c - yoffset) 1 45\<rparr>"
  by (simp add: ProcessMouseScroll_def Let_def clamp_def not_less not_le)

lemma ProcessMouseScroll_below:
  "Zoom c < 1 \<Longrightarrow> ProcessMouseScroll yoffset c = c\<lparr>Zoom := 1\<rparr>"
  by (simp add: ProcessMouseScroll_def Let_def)

lemma ProcessMouseScroll_above:
  "45 < Zoom c \<Longrightarrow> ProcessMouseScroll yoffset c = c\<lparr>Zoom := 45\<rparr>"
  by (simp add: ProcessMouseScroll_def Let_def)

lemma ProcessMouseScroll_range:
  "1 \<le> Zoom (ProcessMouseScroll yoffset c) \<and> Zoom (ProcessMouseScroll yoffset c) \<le> 45"
  by (simp add: ProcessMouseScroll_def Let_def)

lemma scroll_sequence_range:
  "1 \<le> Zoom c \<and> Zoom c \<le> 45 \<Longrightarrow>
   1 \<le> Zoom (scroll_sequence deltas c) \<and> Zoom (scroll_sequence deltas c) \<le> 45"
  unfolding scroll_sequence_def
  by (induction deltas arbitrary: c) (simp_all add: ProcessMouseScroll_range)

section \<open>The operations, member by member\<close>

lemma vec3_minus_plus_cancel: "vec3_minus (vec3_plus p d) d = p"
  by (cases p) (simp add: vec3_minus_def vec3_plus_def)

lemma ProcessKeyboard_FORWARD:
  "ProcessKeyboard FORWARD deltaTime c =
     c\<lparr>Position := vec3_plus (Position c) (vec3_times (Front c) (MovementSpeed c * deltaTime))\<rparr>"
  by (simp add: ProcessKeyboard_def Let_def)

lemma ProcessKeyboard_BACKWARD:
  "ProcessKeyboard BACKWARD deltaTime c =
     c\<lparr>Position := vec3_minus (Position c) (vec3_times (Front c) (MovementSpeed c * deltaTime))\<rparr>"
  by (simp add: ProcessKeyboard_def Let_def)

lemma ProcessKeyboard_LEFT:
  "ProcessKeyboard LEFT deltaTime c =
     c\<lparr>Position := vec3_minus (Position c) (vec3_times (Right c) (MovementSpeed c * deltaTime))\<rparr>"
  by (simp add: ProcessKeyboard_def Let_def)

lemma ProcessKeyboard_RIGHT:
  "ProcessKeyboard RIGHT deltaTime c =
     c\<lparr>Position := vec3_plus (Position c) (vec3_times (Right c) (MovementSpeed c * deltaTime))\<rparr>"
  by (simp add: ProcessKeyboard_def Let_def)

lemma ProcessKeyboard_basis:
  "Front (ProcessKeyboard direction deltaTime c) = Front c \<and>
   Right (ProcessKeyboard direction deltaTime c) = Right c \<and>
   Up (ProcessKeyboard direction deltaTime c) = Up c"
  by (cases direction)
     (simp_all add: ProcessKeyboard_FORWARD ProcessKeyboard_BACKWARD ProcessKeyboard_LEFT
        ProcessKeyboard_RIGHT)

lemma ProcessMouseScroll_basis:
  "Front (ProcessMouseScroll yoffset c) = Front c \<and>
   Right (ProcessMouseScroll yoffset c) = Right c \<and>
   Up (ProcessMouseScroll yoffset c) = Up c"
  by (simp add: ProcessMouseScroll_def Let_def)

lemma Pitch_ProcessMouseMovement_constrained:
  "Pitch (ProcessMouseMovement xoffset yoffset True c) =
     clamp (Pitch c + yoffset * MouseSensitivity c) (- 89) 89"
  by (simp add: ProcessMouseMovement_def Let_def updateCameraVectors_Pitch clamp_def)

lemma MouseSensitivity_ProcessMouseMovement:
  "MouseSensitivity (ProcessMouseMovement xoffset yoffset constrainPitch c) = MouseSensitivity c"
  by (simp add: ProcessMouseMovement_def Let_def updateCameraVectors_fields)

lemma Pitch_ProcessMouseMovement_range:
  "- 89 \<le> Pitch (ProcessMouseMovement xoffset yoffset True c) \<and>
   Pitch (ProcessMouseMovement xoffset yoffset True c) \<le> 89"
  by (simp add: Pitch_ProcessMouseMovement_constrained clamp_def)

lemma mouse_look_sequence_snoc:
  "mouse_look_sequence (offsets @ [(xoffset, yoffset)]) c =
     ProcessMouseMovement xoffset yoffset True (mouse_look_sequence offsets c)"
  by (simp add: mouse_look_sequence_def)

lemma mouse_look_sequence_range:
  assumes "offsets \<noteq> []"
  shows "- 89 \<le> Pitch (mouse_look_sequence offsets c) \<and>
         Pitch (mouse_look_sequence offsets c) \<le> 89"
proof -
  obtain init l where "offsets = init @ [l]"
    using assms by (metis append_butlast_last_id)
  then show ?thesis
    by (cases l) (simp add: mouse_look_sequence_snoc Pitch_ProcessMouseMovement_range)
qed

lemma Yaw_move_camera_in_sphere:
  "Yaw (move_camera_in_sphere xoffset yoffset target_position c) =
     Yaw c - xoffset * MouseSensitivity c * 0.1"
  by (simp add: move_camera_in_sphere_def Let_def updateCameraVectors_Yaw)

lemma Pitch_move_camera_in_sphere:
  "Pitch (move_camera_in_sphere xoffset yoffset target_position c) =
     Pitch c - yoffset * MouseSensitivity c * 0.1"
  by (simp add: move_camera_in_sphere_def Let_def updateCameraVectors_Pitch)

lemma Yaw_ProcessMouseMovement:
  "Yaw (ProcessMouseMovement xoffset yoffset constrainPitch c) =
     Yaw c + xoffset * MouseSensitivity c"
  by (simp add: ProcessMouseMovement_def Let_def updateCameraVectors_Yaw)

lemma Pitch_ProcessMouseMovement_unconstrained:
  "Pitch (ProcessMouseMovement xoffset yoffset False c) =
     Pitch c + yoffset * MouseSensitivity c"
  by (simp add: ProcessMouseMovement_def Let_def updateCameraVectors_Pitch)

lemma Position_move_camera_in_sphere:
  "Position (move_camera_in_sphere xoffset yoffset target_position c) =
     (let alpha = degree_to_radian (Yaw c - xoffset * (MouseSensitivity c * 0.1));
          beta = degree_to_radian (Pitch c - yoffset * (MouseSensitivity c * 0.1));
          distance = distance_from_camera_to_target (Position c) target_position
      in Vec3 (vx target_position - distance * cos alpha * cos beta)
              (vy target_position - distance * sin beta)
              (vz target_position - distance * sin alpha * cos beta))"
  by (simp add: move_camera_in_sphere_def Let_def updateCameraVectors_Position)

lemma distance_nonneg: "0 \<le> distance_from_camera_to_target p q"
  by (simp add: distance_from_camera_to_target_def Let_def)

lemma sphere_point_distance:
  assumes "0 \<le> d"
  shows "distance_from_camera_to_target
           (Vec3 (vx t - d * cos a * cos b) (vy t - d * sin b) (vz t - d * sin a * cos b)) t = d"
proof -
  have "(d * cos a * cos b) * (d * cos a * cos b) + (d * sin b) * (d * sin b)
        + (d * sin a * cos b) * (d * sin a * cos b)
        = d\<^sup>2 * (((sin a)\<^sup>2 + (cos a)\<^sup>2) * (cos b)\<^sup>2 + (sin b)\<^sup>2)"
    by (simp only: power2_eq_square algebra_simps)
  also have "\<dots> = d\<^sup>2"
    by (simp only: sin_cos_squared_add sin_cos_squared_add2 mult_1 mult_1_right)
  finally have sq: "(d * cos a * cos b) * (d * cos a * cos b) + (d * sin b) * (d * sin b)
        + (d * sin a * cos b) * (d * sin a * cos b) = d\<^sup>2" .
  have "distance_from_camera_to_target
           (Vec3 (vx t - d * cos a * cos b) (vy t - d * sin b) (vz t - d * sin a * cos b)) t
        = sqrt ((d * cos a * cos b) * (d * cos a * cos b) + (d * sin b) * (d * sin b)
        + (d * sin a * cos b) * (d * sin a * cos b))"
    by (simp add: distance_from_camera_to_target_def Let_def)
  also have "\<dots> = sqrt (d\<^sup>2)" by (simp only: sq)
  also have "\<dots> = d" using assms by simp
  finally show ?thesis .
qed

section \<open>Where the basis is recomputed\<close>

lemma recomputed_orthonormal:
  "\<not> front_parallel_to_WorldUp (updateCameraVectors c) \<Longrightarrow>
   orthonormal_basis (updateCameraVectors c)"
  by (simp add: front_parallel_updateCameraVectors updateCameraVectors_orthonormal)

lemma Camera_default_not_parallel: "\<not> front_parallel_to_WorldUp Camera_default"
  by (simp add: front_parallel_to_WorldUp_def parallel_def front_of_angles_raw
      Camera_default_fields glm_radians_def glm_cross_def)

lemma basis_recomputed_updateCameraVectors: "basis_recomputed (updateCameraVectors c)"
  by (simp add: basis_recomputed_def updateCameraVectors_fields)

lemma basis_recomputed_ProcessKeyboard:
  "basis_recomputed c \<Longrightarrow> basis_recomputed (ProcessKeyboard direction deltaTime c)"
  by (cases direction)
     (simp_all add: basis_recomputed_def ProcessKeyboard_FORWARD ProcessKeyboard_BACKWARD
        ProcessKeyboard_LEFT ProcessKeyboard_RIGHT)

lemma basis_recomputed_ProcessMouseScroll:
  "basis_recomputed c \<Longrightarrow> basis_recomputed (ProcessMouseScroll yoffset c)"
  by (simp add: basis_recomputed_def ProcessMouseScroll_def Let_def)

lemma reachable_basis_recomputed: "reachable c \<Longrightarrow> basis_recomputed c"
proof (induction rule: reachable.induct)
  case (constructed_from_vectors position up yaw pitch)
  show ?case unfolding Camera_from_vectors_def by (rule basis_recomputed_updateCameraVectors)
next
  case (constructed_from_scalars posX posY posZ upX upY upZ yaw pitch)
  show ?case unfolding Camera_from_scalars_def by (rule basis_recomputed_updateCameraVectors)
next
  case (after_ProcessKeyboard c direction deltaTime)
  then show ?case by (simp add: basis_recomputed_ProcessKeyboard)
next
  case (after_ProcessMouseMovement c xoffset yoffset constrainPitch)
  show ?case unfolding ProcessMouseMovement_def Let_def
    by (rule basis_recomputed_updateCameraVectors)
next
  case (after_move_camera_in_sphere c xoffset yoffset target_position)
  show ?case unfolding move_camera_in_sphere_def Let_def
    by (rule basis_recomputed_updateCameraVectors)
next
  case (after_move_camera_in_ellipsoid c xoffset yoffset target_position)
  show ?case unfolding move_camera_in_ellipsoid_def Let_def
    by (rule basis_recomputed_updateCameraVectors)
next
  case (after_ProcessMouseScroll c yoffset)
  then show ?case by (simp add: basis_recomputed_ProcessMouseScroll)
next
  case (written_Position c p)
  then show ?case by (simp add: basis_recomputed_def)
next
  case (written_MovementSpeed c v)
  then show ?case by (simp add: basis_recomputed_def)
next
  case (written_MouseSensitivity c v)
  then show ?case by (simp add: basis_recomputed_def)
next
  case (written_Zoom c v)
  then show ?case by (simp add: basis_recomputed_def)
qed

lemma basis_recomputed_orthonormal:
  assumes r: "basis_recomputed c" and np: "\<not> front_parallel_to_WorldUp c"
  shows "orthonormal_basis c"
proof -
  have "orthonormal_basis (updateCameraVectors c)"
    using np by (rule updateCameraVectors_orthonormal)
  moreover have "Front (updateCameraVectors c) = Front c"
    and "Right (updateCameraVectors c) = Right c"
    and "Up (updateCameraVectors c) = Up c"
    using r by (simp_all add: basis_recomputed_def updateCameraVectors_fields)
  ultimately show ?thesis by (simp add: orthonormal_basis_def)
qed

lemma reachable_Camera_default: "reachable Camera_default"
  unfolding Camera_default_def by (rule reachable.constructed_from_vectors)

lemma front_parallel_ProcessKeyboard:
  "front_parallel_to_WorldUp (ProcessKeyboard direction deltaTime c) =
   front_parallel_to_WorldUp c"
  by (cases direction)
     (simp_all add: front_parallel_to_WorldUp_def ProcessKeyboard_FORWARD
        ProcessKeyboard_BACKWARD ProcessKeyboard_LEFT ProcessKeyboard_RIGHT)

lemma front_parallel_ProcessMouseScroll:
  "front_parallel_to_WorldUp (ProcessMouseScroll yoffset c) = front_parallel_to_WorldUp c"
  by (simp add: front_parallel_to_WorldUp_def ProcessMouseScroll_def Let_def)

section \<open>The header's \<open>PI\<close> against \<open>\<pi>\<close>\<close>

text \<open>
  \<open>\<pi> / 2\<close> is the zero of the cosine in \<open>[0, 2]\<close>. The Maclaurin polynomial of degree 12
  with its remainder gives the sign of the cosine on either side of it, near enough to
  place \<open>\<pi>\<close> between \<open>3.141592\<close> and \<open>3.141593\<close>.
\<close>

lemma cos_poly14:
  "(\<Sum>m<14. cos_coeff m * x ^ m) =
     1 - x\<^sup>2 / 2 + x ^ 4 / 24 - x ^ 6 / 720 + x ^ 8 / 40320 - x ^ 10 / 3628800
       + x ^ 12 / 479001600" for x :: real
  by (simp add: lessThan_nat_numeral cos_coeff_def fact_numeral)

lemma cos_remainder14:
  fixes x :: real
  assumes "0 \<le> x"
  shows "\<bar>cos x - (\<Sum>m<14. cos_coeff m * x ^ m)\<bar> \<le> x ^ 14 / 87178291200"
proof -
  obtain t where t: "cos x = (\<Sum>m<14. cos_coeff m * x ^ m)
      + (cos (t + 1/2 * real (14::nat) * pi) / fact 14) * x ^ 14"
    using Maclaurin_cos_expansion [of x 14] by blast
  have f: "fact 14 = (87178291200::real)" by (simp add: fact_numeral)
  have "\<bar>cos x - (\<Sum>m<14. cos_coeff m * x ^ m)\<bar>
        = \<bar>cos (t + 1/2 * real (14::nat) * pi)\<bar> * (x ^ 14 / 87178291200)"
    using assms by (simp add: t f abs_mult)
  also have "\<dots> \<le> 1 * (x ^ 14 / 87178291200)"
    using assms by (intro mult_right_mono abs_cos_le_one) simp
  finally show ?thesis by simp
qed

lemma cos_below_pos: "0 < cos (1.570796 :: real)"
proof -
  have "\<bar>cos (1.570796::real) - (\<Sum>m<14. cos_coeff m * 1.570796 ^ m)\<bar>
        \<le> 1.570796 ^ 14 / 87178291200"
    by (rule cos_remainder14) simp
  then have "(\<Sum>m<14. cos_coeff m * (1.570796::real) ^ m) - 1.570796 ^ 14 / 87178291200
             \<le> cos 1.570796"
    by linarith
  moreover have "0 < (\<Sum>m<14. cos_coeff m * (1.570796::real) ^ m) - 1.570796 ^ 14 / 87178291200"
    unfolding cos_poly14 by (simp add: power_divide)
  ultimately show ?thesis by linarith
qed

lemma cos_above_neg: "cos (1.5707965 :: real) < 0"
proof -
  have "\<bar>cos (1.5707965::real) - (\<Sum>m<14. cos_coeff m * 1.5707965 ^ m)\<bar>
        \<le> 1.5707965 ^ 14 / 87178291200"
    by (rule cos_remainder14) simp
  then have "cos 1.5707965
             \<le> (\<Sum>m<14. cos_coeff m * (1.5707965::real) ^ m) + 1.5707965 ^ 14 / 87178291200"
    by linarith
  moreover have "(\<Sum>m<14. cos_coeff m * (1.5707965::real) ^ m) + 1.5707965 ^ 14 / 87178291200 < 0"
    unfolding cos_poly14 by (simp add: power_divide)
  ultimately show ?thesis by linarith
qed

lemma pi_lower: "3.141592 < pi"
proof (rule ccontr)
  assume "\<not> 3.141592 < pi"
  then have h: "pi / 2 \<le> 1.570796" by simp
  have "cos 1.570796 \<le> cos (pi / 2)"
    using h pi_ge_two by (intro cos_monotone_0_pi_le) simp_all
  then show False using cos_below_pos by simp
qed

lemma pi_upper: "pi < 3.141593"
proof (rule ccontr)
  assume "\<not> pi < 3.141593"
  then have h: "1.5707965 \<le> pi / 2" by simp
  have "0 \<le> cos (1.5707965::real)"
    using h by (intro cos_ge_zero) simp_all
  then show False using cos_above_neg by simp
qed

lemma PI_below_pi: "PI < pi \<and> pi - PI < 3 / 1000000"
  using pi_lower pi_upper by (simp add: PI_def)

lemma degree_to_radian_error:
  "\<bar>degree_to_radian degree - degree * pi / 180\<bar> \<le> \<bar>degree\<bar> / 60000000"
proof -
  define k where "k = (pi - PI) / 180"
  have k: "0 \<le> k" "k \<le> 1 / 60000000"
    using PI_below_pi by (simp_all add: k_def)
  have "degree_to_radian degree - degree * pi / 180 = - (degree * k)"
    by (simp add: degree_to_radian_def k_def algebra_simps diff_divide_distrib)
  then have "\<bar>degree_to_radian degree - degree * pi / 180\<bar> = \<bar>degree\<bar> * k"
    using k(1) by (simp add: abs_mult)
  also have "\<dots> \<le> \<bar>degree\<bar> * (1 / 60000000)"
    using k(2) by (intro mult_left_mono) simp_all
  finally show ?thesis by simp
qed

section \<open>The claims\<close>

text \<open>
  Claim C1. In every state a camera reaches, whose front vector (as computed from \<open>Yaw\<close>
  and \<open>Pitch\<close>) is not parallel to \<open>WorldUp\<close>, the vectors \<open>Front\<close>, \<open>Right\<close> and \<open>Up\<close>
  have unit length and are pairwise perpendicular, over exact real arithmetic: so it is
  immediately after either constructor returns, and after \<open>ProcessKeyboard\<close>,
  \<open>ProcessMouseMovement\<close>, \<open>move_camera_in_sphere\<close>, \<open>move_camera_in_ellipsoid\<close> or
  \<open>ProcessMouseScroll\<close> returns. The three operations that recompute the basis give it
  from any state whatever.
\<close>

theorem basis_orthonormal_after_operations:
  "(reachable c \<longrightarrow> \<not> front_parallel_to_WorldUp c \<longrightarrow> orthonormal_basis c) \<and>
   (\<not> front_parallel_to_WorldUp (Camera_from_vectors position up yaw pitch) \<longrightarrow>
      orthonormal_basis (Camera_from_vectors position up yaw pitch)) \<and>
   (\<not> front_parallel_to_WorldUp (Camera_from_scalars posX posY posZ upX upY upZ yaw pitch) \<longrightarrow>
      orthonormal_basis (Camera_from_scalars posX posY posZ upX upY upZ yaw pitch)) \<and>
   (reachable c \<longrightarrow> \<not> front_parallel_to_WorldUp (ProcessKeyboard direction deltaTime c) \<longrightarrow>
      orthonormal_basis (ProcessKeyboard direction deltaTime c)) \<and>
   (\<not> front_parallel_to_WorldUp (ProcessMouseMovement xoffset yoffset constrainPitch c) \<longrightarrow>
      orthonormal_basis (ProcessMouseMovement xoffset yoffset constrainPitch c)) \<and>
   (\<not> front_parallel_to_WorldUp (move_camera_in_sphere xoffset yoffset target_position c) \<longrightarrow>
      orthonormal_basis (move_camera_in_sphere xoffset yoffset target_position c)) \<and>
   (\<not> front_parallel_to_WorldUp (move_camera_in_ellipsoid xoffset yoffset target_position c) \<longrightarrow>
      orthonormal_basis (move_camera_in_ellipsoid xoffset yoffset target_position c)) \<and>
   (reachable c \<longrightarrow> \<not> front_parallel_to_WorldUp (ProcessMouseScroll delta c) \<longrightarrow>
      orthonormal_basis (ProcessMouseScroll delta c))"
proof (intro conjI impI)
  assume "reachable c" and "\<not> front_parallel_to_WorldUp c"
  then show "orthonormal_basis c"
    by (simp add: reachable_basis_recomputed basis_recomputed_orthonormal)
next
  assume "\<not> front_parallel_to_WorldUp (Camera_from_vectors position up yaw pitch)"
  then show "orthonormal_basis (Camera_from_vectors position up yaw pitch)"
    unfolding Camera_from_vectors_def by (rule recomputed_orthonormal)
next
  assume "\<not> front_parallel_to_WorldUp (Camera_from_scalars posX posY posZ upX upY upZ yaw pitch)"
  then show "orthonormal_basis (Camera_from_scalars posX posY posZ upX upY upZ yaw pitch)"
    unfolding Camera_from_scalars_def by (rule recomputed_orthonormal)
next
  assume "reachable c"
    and "\<not> front_parallel_to_WorldUp (ProcessKeyboard direction deltaTime c)"
  then show "orthonormal_basis (ProcessKeyboard direction deltaTime c)"
    by (simp add: reachable_basis_recomputed basis_recomputed_ProcessKeyboard
        basis_recomputed_orthonormal)
next
  assume "\<not> front_parallel_to_WorldUp (ProcessMouseMovement xoffset yoffset constrainPitch c)"
  then show "orthonormal_basis (ProcessMouseMovement xoffset yoffset constrainPitch c)"
    unfolding ProcessMouseMovement_def Let_def by (rule recomputed_orthonormal)
next
  assume "\<not> front_parallel_to_WorldUp (move_camera_in_sphere xoffset yoffset target_position c)"
  then show "orthonormal_basis (move_camera_in_sphere xoffset yoffset target_position c)"
    unfolding move_camera_in_sphere_def Let_def by (rule recomputed_orthonormal)
next
  assume "\<not> front_parallel_to_WorldUp (move_camera_in_ellipsoid xoffset yoffset target_position c)"
  then show "orthonormal_basis (move_camera_in_ellipsoid xoffset yoffset target_position c)"
    unfolding move_camera_in_ellipsoid_def Let_def by (rule recomputed_orthonormal)
next
  assume "reachable c"
    and "\<not> front_parallel_to_WorldUp (ProcessMouseScroll delta c)"
  then show "orthonormal_basis (ProcessMouseScroll delta c)"
    by (simp add: reachable_basis_recomputed basis_recomputed_ProcessMouseScroll
        basis_recomputed_orthonormal)
qed

theorem basis_orthonormal_after_operations_witness:
  "reachable Camera_default \<and>
   \<not> front_parallel_to_WorldUp Camera_default \<and>
   orthonormal_basis Camera_default \<and>
   \<not> front_parallel_to_WorldUp (Camera_from_vectors (Vec3 0 0 0) (Vec3 0 1 0) (- 90) 0) \<and>
   orthonormal_basis (Camera_from_vectors (Vec3 0 0 0) (Vec3 0 1 0) (- 90) 0) \<and>
   \<not> front_parallel_to_WorldUp (Camera_from_scalars 0 0 0 0 1 0 (- 90) 0) \<and>
   orthonormal_basis (Camera_from_scalars 0 0 0 0 1 0 (- 90) 0) \<and>
   \<not> front_parallel_to_WorldUp (ProcessKeyboard LEFT 1 Camera_default) \<and>
   orthonormal_basis (ProcessKeyboard LEFT 1 Camera_default) \<and>
   \<not> front_parallel_to_WorldUp (ProcessMouseMovement 900 0 True Camera_default) \<and>
   orthonormal_basis (ProcessMouseMovement 900 0 True Camera_default) \<and>
   \<not> front_parallel_to_WorldUp (move_camera_in_sphere (- 9000) 0 (Vec3 0 0 0) Camera_default) \<and>
   orthonormal_basis (move_camera_in_sphere (- 9000) 0 (Vec3 0 0 0) Camera_default) \<and>
   \<not> front_parallel_to_WorldUp (move_camera_in_ellipsoid (- 9000) 0 (Vec3 0 0 0) Camera_default) \<and>
   orthonormal_basis (move_camera_in_ellipsoid (- 9000) 0 (Vec3 0 0 0) Camera_default) \<and>
   \<not> front_parallel_to_WorldUp (ProcessMouseScroll 5 Camera_default) \<and>
   orthonormal_basis (ProcessMouseScroll 5 Camera_default) \<and>
   reachable (ProcessMouseMovement 900 0 True Camera_default) \<and>
   \<not> front_parallel_to_WorldUp
       (ProcessKeyboard FORWARD 2 (ProcessMouseMovement 900 0 True Camera_default)) \<and>
   orthonormal_basis (ProcessKeyboard FORWARD 2 (ProcessMouseMovement 900 0 True Camera_default))"
proof -
  have r: "reachable Camera_default" by (rule reachable_Camera_default)
  have d: "\<not> front_parallel_to_WorldUp Camera_default" by (rule Camera_default_not_parallel)
  have k: "\<not> front_parallel_to_WorldUp (ProcessKeyboard LEFT 1 Camera_default)"
    by (simp add: front_parallel_ProcessKeyboard d)
  have z: "\<not> front_parallel_to_WorldUp (ProcessMouseScroll 5 Camera_default)"
    by (simp add: front_parallel_ProcessMouseScroll d)
  have v: "\<not> front_parallel_to_WorldUp (Camera_from_vectors (Vec3 0 0 0) (Vec3 0 1 0) (- 90) 0)"
    by (simp add: Camera_from_vectors_def front_parallel_iff updateCameraVectors_Yaw
        updateCameraVectors_Pitch updateCameraVectors_WorldUp glm_radians_def glm_cross_def)
  have s: "\<not> front_parallel_to_WorldUp (Camera_from_scalars 0 0 0 0 1 0 (- 90) 0)"
    by (simp add: Camera_from_scalars_def front_parallel_iff updateCameraVectors_Yaw
        updateCameraVectors_Pitch updateCameraVectors_WorldUp glm_radians_def glm_cross_def)
  have m: "\<not> front_parallel_to_WorldUp (ProcessMouseMovement 900 0 True Camera_default)"
    by (simp add: ProcessMouseMovement_def Let_def front_parallel_iff updateCameraVectors_Yaw
        updateCameraVectors_Pitch updateCameraVectors_WorldUp Camera_default_fields
        glm_radians_def glm_cross_def)
  have o: "\<not> front_parallel_to_WorldUp
             (move_camera_in_sphere (- 9000) 0 (Vec3 0 0 0) Camera_default)"
    by (simp add: move_camera_in_sphere_def Let_def front_parallel_iff updateCameraVectors_Yaw
        updateCameraVectors_Pitch updateCameraVectors_WorldUp Camera_default_fields
        glm_radians_def glm_cross_def)
  have e: "\<not> front_parallel_to_WorldUp
             (move_camera_in_ellipsoid (- 9000) 0 (Vec3 0 0 0) Camera_default)"
    by (simp add: move_camera_in_ellipsoid_def Let_def front_parallel_iff updateCameraVectors_Yaw
        updateCameraVectors_Pitch updateCameraVectors_WorldUp Camera_default_fields
        glm_radians_def glm_cross_def)
  have r2: "reachable (ProcessMouseMovement 900 0 True Camera_default)"
    using r by (rule reachable.after_ProcessMouseMovement)
  have k2: "\<not> front_parallel_to_WorldUp
              (ProcessKeyboard FORWARD 2 (ProcessMouseMovement 900 0 True Camera_default))"
    by (simp add: front_parallel_ProcessKeyboard m)
  show ?thesis
    using r d k z v s m o e r2 k2
      basis_orthonormal_after_operations
        [of Camera_default "Vec3 0 0 0" "Vec3 0 1 0" "- 90" 0 0 0 0 0 1 0 LEFT 1
            900 0 True "Vec3 0 0 0" 5]
      basis_orthonormal_after_operations
        [of Camera_default "Vec3 0 0 0" "Vec3 0 1 0" "- 90" 0 0 0 0 0 1 0 LEFT 1
            "- 9000" 0 True "Vec3 0 0 0" 5]
      basis_orthonormal_after_operations
        [of "ProcessMouseMovement 900 0 True Camera_default" "Vec3 0 0 0" "Vec3 0 1 0" "- 90" 0
            0 0 0 0 1 0 FORWARD 2 900 0 True "Vec3 0 0 0" 5]
    by simp
qed

text \<open>
  Claim C2. \<open>updateCameraVectors\<close> sets \<open>Front\<close>, \<open>Right\<close> and \<open>Up\<close> to the vectors of
  the specification, for every yaw, pitch and \<open>WorldUp\<close>, and changes nothing else; the
  order front, right, up shows in \<open>Right\<close> being computed from the new \<open>Front\<close> and \<open>Up\<close>
  from the new \<open>Right\<close> and the new \<open>Front\<close>.
\<close>

theorem updateCameraVectors_follows_spec:
  "updateCameraVectors c =
     c\<lparr>Front := spec_front (Yaw c) (Pitch c),
       Right := spec_right (Yaw c) (Pitch c) (WorldUp c),
       Up := spec_up (Yaw c) (Pitch c) (WorldUp c)\<rparr> \<and>
   Right (updateCameraVectors c) =
     glm_normalize (glm_cross (Front (updateCameraVectors c)) (WorldUp c)) \<and>
   Up (updateCameraVectors c) =
     glm_normalize (glm_cross (Right (updateCameraVectors c)) (Front (updateCameraVectors c)))"
  by (simp add: updateCameraVectors_def Let_def spec_front_def spec_right_def spec_up_def
      glm_radians_def)

text \<open>
  Claim C3. For every camera state and every offsets, after \<open>ProcessMouseMovement\<close> with
  the pitch constraint enabled \<open>Pitch\<close> is the clamp to \<open>[-89, 89]\<close> of the accumulated
  value \<open>Pitch + yoffset * MouseSensitivity\<close>, so it lies in \<open>[-89, 89]\<close>; the same holds
  after any non-empty sequence of constrained calls.
\<close>

theorem constrained_mouse_look_Pitch_in_range:
  "Pitch (ProcessMouseMovement xoffset yoffset True c) =
     clamp (Pitch c + yoffset * MouseSensitivity c) (- 89) 89 \<and>
   - 89 \<le> Pitch (ProcessMouseMovement xoffset yoffset True c) \<and>
   Pitch (ProcessMouseMovement xoffset yoffset True c) \<le> 89 \<and>
   (offsets \<noteq> [] \<longrightarrow>
      - 89 \<le> Pitch (mouse_look_sequence offsets c) \<and>
      Pitch (mouse_look_sequence offsets c) \<le> 89)"
proof (intro conjI impI)
  show "Pitch (ProcessMouseMovement xoffset yoffset True c) =
     clamp (Pitch c + yoffset * MouseSensitivity c) (- 89) 89"
    by (rule Pitch_ProcessMouseMovement_constrained)
  show "- 89 \<le> Pitch (ProcessMouseMovement xoffset yoffset True c)"
    and "Pitch (ProcessMouseMovement xoffset yoffset True c) \<le> 89"
    by (simp_all only: Pitch_ProcessMouseMovement_range)
next
  assume ne: "offsets \<noteq> []"
  show "- 89 \<le> Pitch (mouse_look_sequence offsets c)"
    using mouse_look_sequence_range [OF ne] by (rule conjunct1)
  show "Pitch (mouse_look_sequence offsets c) \<le> 89"
    using mouse_look_sequence_range [OF ne] by (rule conjunct2)
qed

theorem constrained_mouse_look_Pitch_in_range_witness:
  "[(3, 2000), (- 1, - 5)] \<noteq> [] \<and>
   Pitch (ProcessMouseMovement 3 2000 True Camera_default) = 89 \<and>
   Pitch (mouse_look_sequence [(3, 2000), (- 1, - 5)] Camera_default) = 88.5 \<and>
   - 89 \<le> Pitch (mouse_look_sequence [(3, 2000), (- 1, - 5)] Camera_default) \<and>
   Pitch (mouse_look_sequence [(3, 2000), (- 1, - 5)] Camera_default) \<le> 89"
proof -
  have ne: "[(3::real, 2000::real), (- 1, - 5)] \<noteq> []" by simp
  have v: "clamp (Pitch Camera_default + 2000 * MouseSensitivity Camera_default) (- 89) 89 = 89"
    by (simp add: Camera_default_fields clamp_def)
  have w: "Pitch (mouse_look_sequence [(3, 2000), (- 1, - 5)] Camera_default) = 88.5"
    by (simp add: mouse_look_sequence_def Pitch_ProcessMouseMovement_constrained
        MouseSensitivity_ProcessMouseMovement Camera_default_fields clamp_def)
  show ?thesis
    using ne v w constrained_mouse_look_Pitch_in_range [of 3 2000 Camera_default "[(3, 2000), (- 1, - 5)]"]
    by simp
qed

text \<open>
  Claim C4. Starting from any \<open>Zoom\<close> in \<open>[1, 45]\<close>, \<open>Zoom\<close> lies in \<open>[1, 45]\<close> after one
  \<open>ProcessMouseScroll\<close> call and after any sequence of them; \<open>ProcessMouseScroll(50)\<close> at
  \<open>Zoom = 45\<close>, the default, leaves \<open>Zoom = 1\<close>.
\<close>

theorem scroll_keeps_Zoom_in_range:
  "(1 \<le> Zoom c \<and> Zoom c \<le> 45 \<longrightarrow>
      1 \<le> Zoom (ProcessMouseScroll yoffset c) \<and> Zoom (ProcessMouseScroll yoffset c) \<le> 45) \<and>
   (1 \<le> Zoom c \<and> Zoom c \<le> 45 \<longrightarrow>
      1 \<le> Zoom (scroll_sequence deltas c) \<and> Zoom (scroll_sequence deltas c) \<le> 45) \<and>
   (Zoom c = 45 \<longrightarrow> Zoom (ProcessMouseScroll 50 c) = 1) \<and>
   Zoom Camera_default = 45 \<and> Zoom (ProcessMouseScroll 50 Camera_default) = 1"
proof (intro conjI impI)
  assume "Zoom c = 45"
  then show "Zoom (ProcessMouseScroll 50 c) = 1"
    by (simp add: ProcessMouseScroll_def Let_def)
next
  show "Zoom (ProcessMouseScroll 50 Camera_default) = 1"
    by (simp add: Camera_default_fields ProcessMouseScroll_def Let_def)
qed (simp_all add: ProcessMouseScroll_range scroll_sequence_range Camera_default_fields)

theorem scroll_keeps_Zoom_in_range_witness:
  "1 \<le> Zoom Camera_default \<and> Zoom Camera_default \<le> 45 \<and> Zoom Camera_default = 45 \<and>
   1 \<le> Zoom (ProcessMouseScroll 50 Camera_default) \<and>
   Zoom (ProcessMouseScroll 50 Camera_default) \<le> 45 \<and>
   1 \<le> Zoom (scroll_sequence [50, - 100, 3] Camera_default) \<and>
   Zoom (scroll_sequence [50, - 100, 3] Camera_default) \<le> 45 \<and>
   Zoom (scroll_sequence [50, - 100, 3] Camera_default) = 42 \<and>
   Zoom (ProcessMouseScroll 50 Camera_default) = 1"
proof -
  have h: "1 \<le> Zoom Camera_default \<and> Zoom Camera_default \<le> 45 \<and> Zoom Camera_default = 45"
    by (simp add: Camera_default_fields)
  have s: "Zoom (scroll_sequence [50, - 100, 3] Camera_default) = 42"
    by (simp add: Camera_default_fields scroll_sequence_def ProcessMouseScroll_def Let_def)
  show ?thesis
    using h s scroll_keeps_Zoom_in_range [of Camera_default 50 "[50, - 100, 3]"] by simp
qed

text \<open>
  Claim C5. For every camera state, target and offsets, the distance from \<open>Position\<close> to
  the target after \<open>move_camera_in_sphere\<close> equals the distance before the call, over
  exact real arithmetic.
\<close>

theorem sphere_orbit_preserves_distance:
  "distance_from_camera_to_target
     (Position (move_camera_in_sphere xoffset yoffset target_position c)) target_position =
   distance_from_camera_to_target (Position c) target_position"
  unfolding Position_move_camera_in_sphere Let_def
  by (rule sphere_point_distance) (rule distance_nonneg)

text \<open>
  Claim C6. \<open>move_camera_in_ellipsoid\<close> and \<open>move_camera_in_sphere\<close> are the same state
  transition: from every state and for every offsets and target they return the same
  camera, every member included.
\<close>

theorem ellipsoid_is_sphere:
  "move_camera_in_ellipsoid xoffset yoffset target_position c =
   move_camera_in_sphere xoffset yoffset target_position c"
  by (simp add: move_camera_in_ellipsoid_def move_camera_in_sphere_def)

text \<open>
  Claim C7. \<open>move_camera_in_sphere\<close> subtracts \<open>xoffset * MouseSensitivity * 0.1\<close> from
  \<open>Yaw\<close> and \<open>yoffset * MouseSensitivity * 0.1\<close> from \<open>Pitch\<close>, where mouse-look adds
  \<open>xoffset * MouseSensitivity\<close> and \<open>yoffset * MouseSensitivity\<close>. It places \<open>Position\<close> at
  the azimuth and elevation \<open>degree_to_radian\<close> gives for the new angles; that function
  converts degrees to radians with the header's \<open>PI\<close>, \<open>degree / 180 * 3.14159\<close>, which is
  within \<open>\<bar>degree\<bar> / 60000000\<close> of \<open>degree * \<pi> / 180\<close>. It does not clamp \<open>Pitch\<close>: from
  the default camera, \<open>yoffset = -10000\<close> leaves \<open>Pitch = 100\<close>.
\<close>

theorem sphere_orbit_angles_unclamped:
  "Yaw (move_camera_in_sphere xoffset yoffset target_position c) =
     Yaw c - xoffset * MouseSensitivity c * 0.1 \<and>
   Pitch (move_camera_in_sphere xoffset yoffset target_position c) =
     Pitch c - yoffset * MouseSensitivity c * 0.1 \<and>
   Yaw (ProcessMouseMovement xoffset yoffset constrainPitch c) =
     Yaw c + xoffset * MouseSensitivity c \<and>
   Pitch (ProcessMouseMovement xoffset yoffset False c) =
     Pitch c + yoffset * MouseSensitivity c \<and>
   Position (move_camera_in_sphere xoffset yoffset target_position c) =
     (let alpha = degree_to_radian (Yaw (move_camera_in_sphere xoffset yoffset target_position c));
          beta = degree_to_radian (Pitch (move_camera_in_sphere xoffset yoffset target_position c));
          distance = distance_from_camera_to_target (Position c) target_position
      in Vec3 (vx target_position - distance * cos alpha * cos beta)
              (vy target_position - distance * sin beta)
              (vz target_position - distance * sin alpha * cos beta)) \<and>
   degree_to_radian degree = degree / 180 * 3.14159 \<and>
   \<bar>degree_to_radian degree - degree * pi / 180\<bar> \<le> \<bar>degree\<bar> / 60000000 \<and>
   Pitch Camera_default = 0 \<and>
   Pitch (move_camera_in_sphere 0 (- 10000) (Vec3 0 0 0) Camera_default) = 100 \<and>
   \<not> (- 89 \<le> Pitch (move_camera_in_sphere 0 (- 10000) (Vec3 0 0 0) Camera_default) \<and>
      Pitch (move_camera_in_sphere 0 (- 10000) (Vec3 0 0 0) Camera_default) \<le> 89)"
proof -
  have p: "Pitch (move_camera_in_sphere 0 (- 10000) (Vec3 0 0 0) Camera_default) = 100"
    by (simp add: Pitch_move_camera_in_sphere Camera_default_fields)
  have pos: "Position (move_camera_in_sphere xoffset yoffset target_position c) =
     (let alpha = degree_to_radian (Yaw (move_camera_in_sphere xoffset yoffset target_position c));
          beta = degree_to_radian (Pitch (move_camera_in_sphere xoffset yoffset target_position c));
          distance = distance_from_camera_to_target (Position c) target_position
      in Vec3 (vx target_position - distance * cos alpha * cos beta)
              (vy target_position - distance * sin beta)
              (vz target_position - distance * sin alpha * cos beta))"
    by (simp add: Position_move_camera_in_sphere Yaw_move_camera_in_sphere
        Pitch_move_camera_in_sphere Let_def)
  have d: "degree_to_radian degree = degree / 180 * 3.14159"
    by (simp add: degree_to_radian_def PI_def)
  have e: "\<bar>degree_to_radian degree - degree * pi / 180\<bar> \<le> \<bar>degree\<bar> / 60000000"
    by (rule degree_to_radian_error)
  have q: "Pitch Camera_default = 0" by (simp add: Camera_default_fields)
  have angles:
    "Yaw (move_camera_in_sphere xoffset yoffset target_position c) =
       Yaw c - xoffset * MouseSensitivity c * 0.1"
    "Pitch (move_camera_in_sphere xoffset yoffset target_position c) =
       Pitch c - yoffset * MouseSensitivity c * 0.1"
    "Yaw (ProcessMouseMovement xoffset yoffset constrainPitch c) =
       Yaw c + xoffset * MouseSensitivity c"
    "Pitch (ProcessMouseMovement xoffset yoffset False c) =
       Pitch c + yoffset * MouseSensitivity c"
    by (rule Yaw_move_camera_in_sphere Pitch_move_camera_in_sphere
        Yaw_ProcessMouseMovement Pitch_ProcessMouseMovement_unconstrained)+
  have out: "\<not> (- 89 \<le> Pitch (move_camera_in_sphere 0 (- 10000) (Vec3 0 0 0) Camera_default) \<and>
      Pitch (move_camera_in_sphere 0 (- 10000) (Vec3 0 0 0) Camera_default) \<le> 89)"
    unfolding p by simp
  show ?thesis
    using angles pos d e q p out by (intro conjI)
qed

text \<open>
  Claim C8, as stated: for every starting \<open>Zoom\<close> and every delta, \<open>ProcessMouseScroll\<close>
  leaves \<open>clamp (Zoom - delta) 1 45\<close>. From \<open>Zoom = 50\<close> with delta \<open>10\<close> the code leaves
  \<open>45\<close>, the clamp of the difference is \<open>40\<close>.
\<close>

theorem scroll_from_50_is_not_post_update_clamp:
  "Zoom camera_with_written_Zoom = 50 \<and>
   Zoom (ProcessMouseScroll 10 camera_with_written_Zoom) = 45 \<and>
   clamp (Zoom camera_with_written_Zoom - 10) 1 45 = 40 \<and>
   Zoom (ProcessMouseScroll 10 camera_with_written_Zoom)
     \<noteq> clamp (Zoom camera_with_written_Zoom - 10) 1 45"
  by (simp add: camera_with_written_Zoom_def ProcessMouseScroll_def Let_def clamp_def)

text \<open>
  Claim C8, amended. For every starting \<open>Zoom\<close> in \<open>[1, 45]\<close> and every delta,
  \<open>ProcessMouseScroll\<close> leaves \<open>clamp (Zoom - delta) 1 45\<close>; from a \<open>Zoom\<close> outside
  \<open>[1, 45]\<close> it leaves \<open>clamp Zoom 1 45\<close>, whatever the delta.
\<close>

theorem scroll_is_post_update_clamp_inside_range:
  "(1 \<le> Zoom c \<and> Zoom c \<le> 45 \<longrightarrow>
      Zoom (ProcessMouseScroll yoffset c) = clamp (Zoom c - yoffset) 1 45) \<and>
   (Zoom c < 1 \<or> 45 < Zoom c \<longrightarrow>
      Zoom (ProcessMouseScroll yoffset c) = clamp (Zoom c) 1 45)"
  by (auto simp add: ProcessMouseScroll_inside ProcessMouseScroll_below
      ProcessMouseScroll_above clamp_def)

theorem scroll_is_post_update_clamp_inside_range_witness:
  "1 \<le> Zoom Camera_default \<and> Zoom Camera_default \<le> 45 \<and>
   Zoom (ProcessMouseScroll 10 Camera_default) = clamp (Zoom Camera_default - 10) 1 45 \<and>
   Zoom (ProcessMouseScroll 10 Camera_default) = 35 \<and>
   (Zoom camera_with_written_Zoom < 1 \<or> 45 < Zoom camera_with_written_Zoom) \<and>
   Zoom (ProcessMouseScroll 10 camera_with_written_Zoom) = 45"
proof -
  have a: "1 \<le> Zoom Camera_default \<and> Zoom Camera_default \<le> 45"
    by (simp add: Camera_default_fields)
  have b: "Zoom camera_with_written_Zoom < 1 \<or> 45 < Zoom camera_with_written_Zoom"
    by (simp add: camera_with_written_Zoom_def)
  have c: "clamp (Zoom Camera_default - 10) 1 45 = 35"
    by (simp add: Camera_default_fields clamp_def)
  have d: "clamp (Zoom camera_with_written_Zoom) 1 45 = 45"
    by (simp add: camera_with_written_Zoom_def clamp_def)
  show ?thesis
    using a b c d scroll_is_post_update_clamp_inside_range [of Camera_default 10]
      scroll_is_post_update_clamp_inside_range [of camera_with_written_Zoom 10]
    by simp
qed

text \<open>
  Claim C9. For every camera state and every elapsed time \<open>t\<close>,
  \<open>ProcessKeyboard(FORWARD, t)\<close> followed by \<open>ProcessKeyboard(BACKWARD, t)\<close> returns
  \<open>Position\<close>, and with it the whole state, to what it was: each call moves \<open>Position\<close> by
  \<open>Front * (MovementSpeed * t)\<close>, forward or back, and changes no other member.
\<close>

theorem keyboard_forward_backward_round_trip:
  "Position (ProcessKeyboard BACKWARD t (ProcessKeyboard FORWARD t c)) = Position c \<and>
   ProcessKeyboard BACKWARD t (ProcessKeyboard FORWARD t c) = c \<and>
   ProcessKeyboard FORWARD t c =
     c\<lparr>Position := vec3_plus (Position c) (vec3_times (Front c) (MovementSpeed c * t))\<rparr> \<and>
   ProcessKeyboard BACKWARD t c =
     c\<lparr>Position := vec3_minus (Position c) (vec3_times (Front c) (MovementSpeed c * t))\<rparr>"
  by (simp add: ProcessKeyboard_FORWARD ProcessKeyboard_BACKWARD vec3_minus_plus_cancel)

text \<open>
  Claim C10. Called while \<open>Zoom\<close> is outside \<open>[1, 45]\<close>, \<open>ProcessMouseScroll\<close> does not
  subtract the delta: it sets \<open>Zoom\<close> to \<open>1\<close> when it was below \<open>1\<close>, to \<open>45\<close> when it
  was above \<open>45\<close>, and changes nothing else. So after every call, from any state, \<open>Zoom\<close>
  lies in \<open>[1, 45]\<close>.
\<close>

theorem scroll_outside_range_discards_delta:
  "(Zoom c < 1 \<longrightarrow> ProcessMouseScroll yoffset c = c\<lparr>Zoom := 1\<rparr>) \<and>
   (45 < Zoom c \<longrightarrow> ProcessMouseScroll yoffset c = c\<lparr>Zoom := 45\<rparr>) \<and>
   1 \<le> Zoom (ProcessMouseScroll yoffset c) \<and> Zoom (ProcessMouseScroll yoffset c) \<le> 45"
  by (simp add: ProcessMouseScroll_below ProcessMouseScroll_above ProcessMouseScroll_range)

theorem scroll_outside_range_discards_delta_witness:
  "Zoom (Camera_default\<lparr>Zoom := 0\<rparr>) < 1 \<and>
   ProcessMouseScroll 7 (Camera_default\<lparr>Zoom := 0\<rparr>) = Camera_default\<lparr>Zoom := 1\<rparr> \<and>
   45 < Zoom camera_with_written_Zoom \<and>
   ProcessMouseScroll 7 camera_with_written_Zoom = Camera_default\<lparr>Zoom := 45\<rparr>"
proof -
  have lo: "Zoom (Camera_default\<lparr>Zoom := 0\<rparr>) < 1" by simp
  have hi: "45 < Zoom camera_with_written_Zoom" by (simp add: camera_with_written_Zoom_def)
  show ?thesis
    using lo hi scroll_outside_range_discards_delta [of "Camera_default\<lparr>Zoom := 0\<rparr>" 7]
      scroll_outside_range_discards_delta [of camera_with_written_Zoom 7]
    by (simp add: camera_with_written_Zoom_def)
qed

end
